theory Spec2Isabelle
  imports Main "HOL-Library.Sublist" "HOL-Library.AList"
begin

section \<open>The Framer plugin tool server (src/index.ts)\<close>

text \<open>
  The server offers two tools, \<open>create_plugin\<close> and \<open>build_plugin\<close>. Both handlers act on
  the file system through \<open>fs-extra\<close> and Node's \<open>path\<close> module, and the build handler starts
  \<open>npm run build\<close> through \<open>execSync\<close>. The handlers are embedded as functions on an explicit
  world: the current directory, the file tree and the list of \<open>execSync\<close> calls made so far.
  The library calls are modelled by their POSIX behaviour, as far as the handlers use them.
  JavaScript strings are HOL strings, and the requests are taken in the types the source
  declares for them (\<open>CreatePluginArgs\<close>, \<open>BuildPluginArgs\<close>).
\<close>

subsection \<open>Paths (Node's \<open>path\<close> module on POSIX)\<close>

text \<open>
  A resolved path is absolute and normalised; it is kept as the list of its components,
  the root being the empty list. \<open>path_str\<close> is the string Node returns for it.
\<close>

type_synonym path = "string list"

definition path_str :: "path \<Rightarrow> string" where
  "path_str p = (if p = [] then ''/'' else concat (map (\<lambda>s. CHR ''/'' # s) p))"

text \<open>Splitting a string at every occurrence of a separator character.\<close>

fun split_sep :: "char \<Rightarrow> string \<Rightarrow> string list" where
  "split_sep c [] = [[]]"
| "split_sep c (x # xs) =
     (let r = split_sep c xs in if x = c then [] # r else (x # hd r) # tl r)"

text \<open>
  One step of Node's \<open>normalizeString\<close> (with \<open>allowAboveRoot = false\<close>): an empty segment and
  \<open>.\<close> are skipped, \<open>..\<close> drops the last component (and stays at the root), any other
  segment is appended.
\<close>

definition normalize_segment :: "path \<Rightarrow> string \<Rightarrow> path" where
  "normalize_segment acc seg =
     (if seg = [] \<or> seg = ''.'' then acc
      else if seg = ''..'' then butlast acc
      else acc @ [seg])"

text \<open>
  \<open>path.resolve(p)\<close>: an absolute argument is normalised from the root, any other argument
  is taken relative to the current directory (the empty string gives the current directory).
\<close>

definition path_resolve :: "path \<Rightarrow> string \<Rightarrow> path" where
  "path_resolve cwd p =
     foldl normalize_segment (if p \<noteq> [] \<and> hd p = CHR ''/'' then [] else cwd)
       (split_sep (CHR ''/'') p)"

text \<open>\<open>path.join(dir, s)\<close> for a resolved directory \<open>dir\<close>.\<close>

definition path_join :: "path \<Rightarrow> string \<Rightarrow> path" where
  "path_join dir s = foldl normalize_segment dir (split_sep (CHR ''/'') s)"

subsection \<open>The world: file tree and started processes\<close>

datatype node = Dir | File string

record world =
  cwd :: path
  files :: "path \<rightharpoonup> node"
  spawned :: "(string \<times> path) list"

text \<open>
  An action runs on a world and gives either a thrown error or a value, and the world it
  leaves behind. Writes that happened before a throw stay (the handlers do no cleanup).
\<close>

type_synonym ('e, 'a) io = "world \<Rightarrow> ('e + 'a) \<times> world"

definition return_io :: "'a \<Rightarrow> ('e, 'a) io" where
  "return_io x = (\<lambda>w. (Inr x, w))"

definition throw_io :: "'e \<Rightarrow> ('e, 'a) io" where
  "throw_io e = (\<lambda>w. (Inl e, w))"

definition bind_io :: "('e, 'a) io \<Rightarrow> ('a \<Rightarrow> ('e, 'b) io) \<Rightarrow> ('e, 'b) io" where
  "bind_io m f = (\<lambda>w. case m w of (Inl e, w') \<Rightarrow> (Inl e, w') | (Inr x, w') \<Rightarrow> f x w')"

definition catch_io :: "('e, 'a) io \<Rightarrow> ('e \<Rightarrow> ('f, 'a) io) \<Rightarrow> ('f, 'a) io" where
  "catch_io m h = (\<lambda>w. case m w of (Inl e, w') \<Rightarrow> h e w' | (Inr x, w') \<Rightarrow> (Inr x, w'))"

subsection \<open>The \<open>fs-extra\<close> calls\<close>

text \<open>
  A thrown \<open>Error\<close> is represented by its message. The calls fail exactly where the kind of
  an existing node forbids the operation; permissions and exhausted disks are not modelled.
\<close>

definition is_file :: "node option \<Rightarrow> bool" where
  "is_file n = (case n of Some (File _) \<Rightarrow> True | _ \<Rightarrow> False)"

text \<open>
  \<open>fs.ensureDir(dir)\<close> is \<open>mkdir -p\<close>: it fails when \<open>dir\<close> or one of its ancestors is a regular
  file, and otherwise makes \<open>dir\<close> and every ancestor a directory.
\<close>

definition ensureDir :: "path \<Rightarrow> (string, unit) io" where
  "ensureDir dir = (\<lambda>w.
     case find (\<lambda>q. is_file (files w q)) (prefixes dir) of
       Some q \<Rightarrow>
         throw_io ((if q = dir then ''EEXIST: file already exists, mkdir ''
                    else ''ENOTDIR: not a directory, mkdir '') @ path_str dir) w
     | None \<Rightarrow>
         return_io () (w\<lparr>files := (\<lambda>q. if prefix q dir then Some Dir else files w q)\<rparr>))"

text \<open>
  \<open>fs.writeFile(file, data)\<close> creates or overwrites a regular file in an existing directory.
\<close>

definition writeFile :: "path \<Rightarrow> string \<Rightarrow> (string, unit) io" where
  "writeFile file data = (\<lambda>w.
     case files w (butlast file) of
       None \<Rightarrow> throw_io (''ENOENT: no such file or directory, open '' @ path_str file) w
     | Some (File _) \<Rightarrow> throw_io (''ENOTDIR: not a directory, open '' @ path_str file) w
     | Some Dir \<Rightarrow>
         (if files w file = Some Dir
          then throw_io (''EISDIR: illegal operation on a directory, open '' @ path_str file) w
          else return_io () (w\<lparr>files := (files w)(file \<mapsto> File data)\<rparr>)))"

text \<open>\<open>fs.pathExists(p)\<close> is true for any existing node, file or directory; it never throws.\<close>

definition pathExists :: "path \<Rightarrow> (string, bool) io" where
  "pathExists p = (\<lambda>w. return_io (files w p \<noteq> None) w)"

subsection \<open>JSON values and \<open>fs.writeJSON\<close>\<close>

text \<open>
  The objects the handlers serialise hold strings, booleans, arrays and nested objects.
  An object keeps its properties in insertion order, as JavaScript does for string keys.
\<close>

datatype json =
    JString string
  | JBool bool
  | JArray "json list"
  | JObject "(string \<times> json) list"

text \<open>String quoting of \<open>JSON.stringify\<close>.\<close>

definition hex_digit :: "nat \<Rightarrow> char" where
  "hex_digit n = ''0123456789abcdef'' ! (n mod 16)"

definition json_escape :: "char \<Rightarrow> string" where
  "json_escape c =
     (if c = CHR 0x22 then [CHR 0x5C, CHR 0x22]
      else if c = CHR 0x5C then [CHR 0x5C, CHR 0x5C]
      else if c = CHR 0x08 then [CHR 0x5C, CHR ''b'']
      else if c = CHR 0x0C then [CHR 0x5C, CHR ''f'']
      else if c = CHR 0x0A then [CHR 0x5C, CHR ''n'']
      else if c = CHR 0x0D then [CHR 0x5C, CHR ''r'']
      else if c = CHR 0x09 then [CHR 0x5C, CHR ''t'']
      else if (of_char c :: nat) < 0x20
        then [CHR 0x5C, CHR ''u'', CHR ''0'', CHR ''0'',
              hex_digit (of_char c div 16), hex_digit (of_char c)]
      else [c])"

definition json_quote :: "string \<Rightarrow> string" where
  "json_quote s = CHR 0x22 # concat (map json_escape s) @ [CHR 0x22]"

definition indent :: "nat \<Rightarrow> string" where
  "indent n = replicate (2 * n) (CHR '' '')"

text \<open>Joining with a separator, as \<open>Array.prototype.join\<close>.\<close>

fun join_with :: "string \<Rightarrow> string list \<Rightarrow> string" where
  "join_with sep [] = []"
| "join_with sep [x] = x"
| "join_with sep (x # y # ys) = x @ sep @ join_with sep (y # ys)"

text \<open>\<open>JSON.stringify(v, null, 2)\<close>, for a value at nesting depth \<open>n\<close>.\<close>

fun stringify :: "nat \<Rightarrow> json \<Rightarrow> string" where
  "stringify n (JString s) = json_quote s"
| "stringify n (JBool b) = (if b then ''true'' else ''false'')"
| "stringify n (JArray vs) =
     (if vs = [] then ''[]''
      else ''['' @ [CHR 0x0A]
        @ join_with ('','' @ [CHR 0x0A]) (map (\<lambda>v. indent (Suc n) @ stringify (Suc n) v) vs)
        @ [CHR 0x0A] @ indent n @ '']'')"
| "stringify n (JObject kvs) =
     (if kvs = [] then ''{}''
      else ''{'' @ [CHR 0x0A]
        @ join_with ('','' @ [CHR 0x0A])
            (map (\<lambda>kv. indent (Suc n) @ json_quote (fst kv) @ '': '' @ stringify (Suc n) (snd kv)) kvs)
        @ [CHR 0x0A] @ indent n @ ''}'')"

text \<open>
  \<open>fs.writeJSON(file, obj, { spaces: 2 })\<close> writes the indented text followed by a
  line feed.
\<close>

definition writeJSON :: "path \<Rightarrow> json \<Rightarrow> (string, unit) io" where
  "writeJSON file obj = writeFile file (stringify 0 obj @ [CHR 0x0A])"

subsection \<open>Requests, results and errors\<close>

record CreatePluginArgs =
  name :: string
  description :: string
  outputPath :: string
  web3Features :: "string list option"

record BuildPluginArgs =
  pluginPath :: string

record PackageJson =
  name :: string
  version :: string
  description :: string
  main :: string
  scripts :: "(string \<times> string) list"
  dependencies :: "(string \<times> string) list"
  devDependencies :: "(string \<times> string) list"

text \<open>
  Of the error codes of the protocol library the server uses two. An \<open>McpError\<close> is kept as
  the code and the message handed to its constructor.
\<close>

datatype ErrorCode = MethodNotFound | InternalError

record McpError =
  code :: ErrorCode
  message :: string

record ContentBlock =
  type :: string
  "text" :: string

record ToolResult =
  content :: "ContentBlock list"

subsection \<open>Small JavaScript operations the handlers use\<close>

text \<open>\<open>xs?.includes(x)\<close>: an omitted list gives \<open>undefined\<close>, which the \<open>if\<close> takes as false.\<close>

definition optional_includes :: "'a list option \<Rightarrow> 'a \<Rightarrow> bool" where
  "optional_includes xs x = (case xs of None \<Rightarrow> False | Some ys \<Rightarrow> List.member ys x)"

text \<open>\<open>s.replace(/c/g, r)\<close> for a single character \<open>c\<close>: every occurrence is replaced.\<close>

fun replace_all :: "char \<Rightarrow> string \<Rightarrow> string \<Rightarrow> string" where
  "replace_all c r [] = []"
| "replace_all c r (x # xs) = (if x = c then r @ replace_all c r xs else x # replace_all c r xs)"

text \<open>
  \<open>{ ...base, k1: v1, ... }\<close>: the properties of \<open>base\<close>, then each listed property set in turn
  (a key that is present keeps its place, a new key goes to the end).
\<close>

definition object_spread :: "(string \<times> 'v) list \<Rightarrow> (string \<times> 'v) list \<Rightarrow> (string \<times> 'v) list" where
  "object_spread base props = fold (\<lambda>kv. AList.update (fst kv) (snd kv)) props base"

text \<open>A template literal spanning several lines: every line is followed by a line feed.\<close>

definition unlines :: "string list \<Rightarrow> string" where
  "unlines ls = concat (map (\<lambda>l. l @ [CHR 0x0A]) ls)"

definition json_of_strings :: "(string \<times> string) list \<Rightarrow> json" where
  "json_of_strings kvs = JObject (map (\<lambda>kv. (fst kv, JString (snd kv))) kvs)"

definition json_of_PackageJson :: "PackageJson \<Rightarrow> json" where
  "json_of_PackageJson p = JObject
     [(''name'', JString (PackageJson.name p)),
      (''version'', JString (version p)),
      (''description'', JString (PackageJson.description p)),
      (''main'', JString (main p)),
      (''scripts'', json_of_strings (scripts p)),
      (''dependencies'', json_of_strings (dependencies p)),
      (''devDependencies'', json_of_strings (devDependencies p))]"

subsection \<open>What \<open>handleCreatePlugin\<close> generates\<close>

text \<open>The package descriptor (lines 131 to 161 of the source).\<close>

definition packageJson :: "CreatePluginArgs \<Rightarrow> PackageJson" where
  "packageJson args =
     (let packageJson = \<lparr>
        PackageJson.name = CreatePluginArgs.name args,
        version = ''1.0.0'',
        description = CreatePluginArgs.description args,
        main = ''dist/index.js'',
        scripts = [(''build'', ''vite build''), (''dev'', ''vite'')],
        dependencies =
          [(''@framer/framer.motion'', ''^10.0.0''),
           (''react'', ''^18.2.0''),
           (''react-dom'', ''^18.2.0'')],
        devDependencies =
          [(''@types/react'', ''^18.2.0''),
           (''typescript'', ''^5.0.0''),
           (''vite'', ''^4.0.0''),
           (''@vitejs/plugin-react'', ''^4.0.0'')]\<rparr>
      in if optional_includes (web3Features args) ''wallet-connect''
         then packageJson\<lparr>dependencies :=
           object_spread (dependencies packageJson)
             [(''@web3-react/core'', ''^8.2.0''),
              (''@web3-react/injected-connector'', ''^6.0.7''),
              (''ethers'', ''^6.7.0'')]\<rparr>
         else packageJson)"

definition tsConfig :: json where
  "tsConfig = JObject
     [(''compilerOptions'', JObject
         [(''target'', JString ''ES2020''),
          (''lib'', JArray [JString ''DOM'', JString ''DOM.Iterable'', JString ''ESNext'']),
          (''module'', JString ''ESNext''),
          (''skipLibCheck'', JBool True),
          (''moduleResolution'', JString ''bundler''),
          (''allowImportingTsExtensions'', JBool True),
          (''resolveJsonModule'', JBool True),
          (''isolatedModules'', JBool True),
          (''noEmit'', JBool True),
          (''jsx'', JString ''react-jsx''),
          (''strict'', JBool True),
          (''noUnusedLocals'', JBool True),
          (''noUnusedParameters'', JBool True),
          (''noFallthroughCasesInSwitch'', JBool True)]),
      (''include'', JArray [JString ''src'']),
      (''references'', JArray [JObject [(''path'', JString ''./tsconfig.node.json'')]])]"

definition tsNodeConfig :: json where
  "tsNodeConfig = JObject
     [(''compilerOptions'', JObject
         [(''composite'', JBool True),
          (''skipLibCheck'', JBool True),
          (''module'', JString ''ESNext''),
          (''moduleResolution'', JString ''bundler''),
          (''allowSyntheticDefaultImports'', JBool True)]),
      (''include'', JArray [JString ''vite.config.ts''])]"

definition viteConfig :: "CreatePluginArgs \<Rightarrow> string" where
  "viteConfig args = unlines [
     '''',
     ''import { defineConfig } from 'vite';'',
     ''import react from '@vitejs/plugin-react';'',
     '''',
     ''export default defineConfig({'',
     ''  plugins: [react()],'',
     ''  build: {'',
     ''    lib: {'',
     ''      entry: 'src/index.tsx','',
     ''      name: '' @ [CHR 0x27] @ CreatePluginArgs.name args @ ''','',
     ''      formats: ['es'],'',
     ''      fileName: 'index'' @ [CHR 0x27],
     ''    },'',
     ''    rollupOptions: {'',
     ''      external: ['react', 'react-dom'],'',
     ''      output: {'',
     ''        globals: {'',
     ''          react: 'React','',
     ''          'react-dom': 'ReactDOM'' @ [CHR 0x27],
     ''        }'',
     ''      }'',
     ''    }'',
     ''  }'',
     ''});'']"

text \<open>The plain variant of \<open>src/index.tsx\<close> (lines 237 to 264).\<close>

definition indexContent_plain :: "CreatePluginArgs \<Rightarrow> string" where
  "indexContent_plain args = unlines [
     '''',
     ''import { addPropertyControls, ControlType } from 'framer';'',
     ''import { motion } from 'framer-motion';'',
     ''import React from 'react';'',
     '''',
     ''export default function '' @ replace_all (CHR ''-'') ''_'' (CreatePluginArgs.name args) @ ''() {'',
     ''  return ('',
     ''    <motion.div'',
     ''      style={{'',
     ''        width: 200,'',
     ''        height: 200,'',
     ''        backgroundColor: '#09F','',
     ''        borderRadius: 20,'',
     ''      }}'',
     ''      whileHover={{ scale: 1.1 }}'',
     ''      whileTap={{ scale: 0.9 }}'',
     ''    />'',
     ''  );'',
     ''}'',
     '''',
     ''addPropertyControls('' @ replace_all (CHR ''-'') ''_'' (CreatePluginArgs.name args) @ '', {'',
     ''  text: {'',
     ''    type: ControlType.String,'',
     ''    title: 'Text','',
     ''    defaultValue: 'Hello World','',
     ''  },'',
     ''});'']"

text \<open>The wallet variant (lines 267 to 324).\<close>

definition indexContent_wallet :: "CreatePluginArgs \<Rightarrow> string" where
  "indexContent_wallet args = unlines [
     '''',
     ''import { addPropertyControls, ControlType } from 'framer';'',
     ''import { motion } from 'framer-motion';'',
     ''import React from 'react';'',
     ''import { Web3ReactProvider, useWeb3React } from '@web3-react/core';'',
     ''import { InjectedConnector } from '@web3-react/injected-connector';'',
     ''import { ethers } from 'ethers';'',
     '''',
     ''const injected = new InjectedConnector({'',
     ''  supportedChainIds: [1, 3, 4, 5, 42],'',
     ''});'',
     '''',
     ''function Web3Button() {'',
     ''  const { activate, active, account, library } = useWeb3React();'',
     '''',
     ''  const connect = async () => {'',
     ''    try {'',
     ''      await activate(injected);'',
     ''    } catch (error) {'',
     ''      console.error('Error connecting:', error);'',
     ''    }'',
     ''  };'',
     '''',
     ''  return ('',
     ''    <motion.button'',
     ''      onClick={connect}'',
     ''      whileHover={{ scale: 1.1 }}'',
     ''      whileTap={{ scale: 0.9 }}'',
     ''      style={{'',
     ''        padding: '10px 20px','',
     ''        borderRadius: 8,'',
     ''        backgroundColor: active ? '#4CAF50' : '#09F','',
     ''        color: 'white','',
     ''        border: 'none','',
     ''        cursor: 'pointer','',
     ''      }}'',
     ''    >'',
     ''      {active ? `Connected: ${account?.slice(0, 6)}...${account?.slice(-4)}` : 'Connect Wallet'}'',
     ''    </motion.button>'',
     ''  );'',
     ''}'',
     '''',
     ''export default function '' @ replace_all (CHR ''-'') ''_'' (CreatePluginArgs.name args) @ ''() {'',
     ''  return ('',
     ''    <Web3ReactProvider getLibrary={(provider) => new ethers.BrowserProvider(provider)}>'',
     ''      <Web3Button />'',
     ''    </Web3ReactProvider>'',
     ''  );'',
     ''}'',
     '''',
     ''addPropertyControls('' @ replace_all (CHR ''-'') ''_'' (CreatePluginArgs.name args) @ '', {'',
     ''  text: {'',
     ''    type: ControlType.String,'',
     ''    title: 'Text','',
     ''    defaultValue: 'Connect Wallet','',
     ''  },'',
     ''});'']"

definition indexContent :: "CreatePluginArgs \<Rightarrow> string" where
  "indexContent args =
     (let indexContent = indexContent_plain args
      in if optional_includes (web3Features args) ''wallet-connect''
         then indexContent_wallet args
         else indexContent)"

subsection \<open>\<open>handleCreatePlugin\<close>\<close>

text \<open>The body of the \<open>try\<close> block.\<close>

definition handleCreatePlugin_try :: "CreatePluginArgs \<Rightarrow> (string, ToolResult) io" where
  "handleCreatePlugin_try args = (\<lambda>w.
     (let pluginDir = path_resolve (cwd w) (outputPath args) in
      bind_io (ensureDir pluginDir) (\<lambda>_.
      bind_io (writeJSON (path_join pluginDir ''package.json'')
                 (json_of_PackageJson (packageJson args))) (\<lambda>_.
      bind_io (writeJSON (path_join pluginDir ''tsconfig.json'') tsConfig) (\<lambda>_.
      bind_io (writeJSON (path_join pluginDir ''tsconfig.node.json'') tsNodeConfig) (\<lambda>_.
      bind_io (writeFile (path_join pluginDir ''vite.config.ts'') (viteConfig args)) (\<lambda>_.
      (let srcDir = path_join pluginDir ''src'' in
       bind_io (ensureDir srcDir) (\<lambda>_.
       bind_io (writeFile (path_join srcDir ''index.tsx'') (indexContent args)) (\<lambda>_.
       return_io \<lparr>content =
         [\<lparr>type = ''text'',
           text = ''Successfully created Framer plugin project at '' @ path_str pluginDir\<rparr>]\<rparr>
       ))))))))) w)"

definition handleCreatePlugin :: "CreatePluginArgs \<Rightarrow> (McpError, ToolResult) io" where
  "handleCreatePlugin args =
     catch_io (handleCreatePlugin_try args)
       (\<lambda>error. throw_io \<lparr>code = InternalError,
                           message = ''Failed to create plugin: '' @ error\<rparr>)"

subsection \<open>\<open>handleBuildPlugin\<close>\<close>

text \<open>
  The build command is outside the program. It is a parameter: given the command line, the
  working directory and the file tree, it gives the message of the error \<open>execSync\<close> throws
  (a failed start or a non-zero exit status), if any, and the file tree it leaves.
  \<open>execSync\<close> records every call in \<open>spawned\<close>. Loading \<open>child_process\<close> with \<open>require\<close> is
  taken to succeed.
\<close>

type_synonym build_tool = "string \<Rightarrow> path \<Rightarrow> (path \<rightharpoonup> node) \<Rightarrow> string option \<times> (path \<rightharpoonup> node)"

definition execSync :: "build_tool \<Rightarrow> string \<Rightarrow> path \<Rightarrow> (string, unit) io" where
  "execSync run command dir = (\<lambda>w.
     (let outcome = run command dir (files w);
          w' = w\<lparr>files := snd outcome, spawned := spawned w @ [(command, dir)]\<rparr>
      in case fst outcome of
           Some m \<Rightarrow> throw_io m w'
         | None \<Rightarrow> return_io () w'))"

definition handleBuildPlugin_try :: "build_tool \<Rightarrow> BuildPluginArgs \<Rightarrow> (string, ToolResult) io" where
  "handleBuildPlugin_try run args = (\<lambda>w.
     (let pluginDir = path_resolve (cwd w) (pluginPath args) in
      bind_io (pathExists pluginDir) (\<lambda>exists.
      if \<not> exists
      then throw_io (''Plugin directory not found: '' @ path_str pluginDir)
      else
        bind_io (execSync run ''npm run build'' pluginDir) (\<lambda>_.
        return_io \<lparr>content =
          [\<lparr>type = ''text'',
            text = ''Successfully built plugin at '' @ path_str pluginDir\<rparr>]\<rparr>))) w)"

definition handleBuildPlugin :: "build_tool \<Rightarrow> BuildPluginArgs \<Rightarrow> (McpError, ToolResult) io" where
  "handleBuildPlugin run args =
     catch_io (handleBuildPlugin_try run args)
       (\<lambda>error. throw_io \<lparr>code = InternalError,
                           message = ''Failed to build plugin: '' @ error\<rparr>)"

subsection \<open>The dispatcher (\<open>setupToolHandlers\<close>)\<close>

record Tool =
  name :: string
  description :: string
  inputSchema :: json

record ListToolsResult =
  tools :: "Tool list"

text \<open>The handler of the list request (lines 61 to 108).\<close>

definition listTools :: "(McpError, ListToolsResult) io" where
  "listTools = return_io \<lparr>tools =
     [\<lparr>Tool.name = ''create_plugin'',
       description = ''Create a new Framer plugin project with web3 capabilities'',
       inputSchema = JObject
         [(''type'', JString ''object''),
          (''properties'', JObject
             [(''name'', JObject
                 [(''type'', JString ''string''),
                  (''description'', JString ''Plugin name'')]),
              (''description'', JObject
                 [(''type'', JString ''string''),
                  (''description'', JString ''Plugin description'')]),
              (''outputPath'', JObject
                 [(''type'', JString ''string''),
                  (''description'', JString ''Output directory path'')]),
              (''web3Features'', JObject
                 [(''type'', JString ''array''),
                  (''items'', JObject
                     [(''type'', JString ''string''),
                      (''enum'', JArray [JString ''wallet-connect'',
                                        JString ''contract-interaction'',
                                        JString ''nft-display''])]),
                  (''description'', JString ''Web3 features to include'')])]),
          (''required'', JArray [JString ''name'', JString ''description'',
                                JString ''outputPath''])]\<rparr>,
      \<lparr>Tool.name = ''build_plugin'',
       description = ''Build a Framer plugin project'',
       inputSchema = JObject
         [(''type'', JString ''object''),
          (''properties'', JObject
             [(''pluginPath'', JObject
                 [(''type'', JString ''string''),
                  (''description'', JString ''Path to plugin directory'')])]),
          (''required'', JArray [JString ''pluginPath''])]\<rparr>]\<rparr>"

text \<open>
  A call request carries the tool's name and its arguments. The dispatcher hands the
  arguments to a handler through an unchecked cast (\<open>as unknown as CreatePluginArgs\<close>); the
  two casts are parameters of the model, so that nothing is assumed about the request's
  arguments.
\<close>

record 'a CallToolParams =
  name :: string
  arguments :: 'a

definition callTool ::
  "build_tool \<Rightarrow> ('a \<Rightarrow> CreatePluginArgs) \<Rightarrow> ('a \<Rightarrow> BuildPluginArgs) \<Rightarrow>
   'a CallToolParams \<Rightarrow> (McpError, ToolResult) io" where
  "callTool run asCreatePluginArgs asBuildPluginArgs params =
     (if CallToolParams.name params = ''create_plugin''
        then handleCreatePlugin (asCreatePluginArgs (arguments params))
      else if CallToolParams.name params = ''build_plugin''
        then handleBuildPlugin run (asBuildPluginArgs (arguments params))
      else throw_io \<lparr>code = MethodNotFound,
                      message = ''Unknown tool: '' @ CallToolParams.name params\<rparr>)"

subsection \<open>Auxiliary notions for the proofs\<close>

text \<open>
  The file tree a successful run of \<open>handleCreatePlugin\<close> leaves behind, in closed form:
  the five written files, the directories down to \<open>src\<close>, and everything else as before.
\<close>

definition created_tree :: "CreatePluginArgs \<Rightarrow> path \<Rightarrow> (path \<rightharpoonup> node) \<Rightarrow> (path \<rightharpoonup> node)" where
  "created_tree args dir fs = (\<lambda>q.
     if q = dir @ [''src'', ''index.tsx''] then Some (File (indexContent args))
     else if q = dir @ [''vite.config.ts''] then Some (File (viteConfig args))
     else if q = dir @ [''tsconfig.node.json''] then Some (File (stringify 0 tsNodeConfig @ [CHR 0x0A]))
     else if q = dir @ [''tsconfig.json''] then Some (File (stringify 0 tsConfig @ [CHR 0x0A]))
     else if q = dir @ [''package.json'']
       then Some (File (stringify 0 (json_of_PackageJson (packageJson args)) @ [CHR 0x0A]))
     else if prefix q (dir @ [''src'']) then Some Dir
     else fs q)"

subsection \<open>Example inputs\<close>

text \<open>The requests of the scenarios of the specification, and a world to run them in.\<close>

definition widget_request :: CreatePluginArgs where
  "widget_request = \<lparr>CreatePluginArgs.name = ''widget'', description = ''d'',
     outputPath = ''/tmp/widget'', web3Features = None\<rparr>"

definition wallet_request :: CreatePluginArgs where
  "wallet_request = widget_request\<lparr>web3Features := Some [''wallet-connect'']\<rparr>"

definition fresh_world :: world where
  "fresh_world = \<lparr>cwd = [''home''],
     files = [[] \<mapsto> Dir, [''home''] \<mapsto> Dir, [''tmp''] \<mapsto> Dir, [''tmp'', ''notes.txt''] \<mapsto> File ''x''],
     spawned = []\<rparr>"

text \<open>A build command that succeeds and changes nothing, and one that cannot start.\<close>

definition npm_ok :: build_tool where
  "npm_ok command dir fs = (None, fs)"

definition npm_enotdir :: build_tool where
  "npm_enotdir command dir fs = (Some ''spawnSync /bin/sh ENOTDIR'', fs)"

section \<open>Properties\<close>

subsection \<open>Paths\<close>

lemma path_join_names:
  "path_join d ''package.json'' = d @ [''package.json'']"
  "path_join d ''tsconfig.json'' = d @ [''tsconfig.json'']"
  "path_join d ''tsconfig.node.json'' = d @ [''tsconfig.node.json'']"
  "path_join d ''vite.config.ts'' = d @ [''vite.config.ts'']"
  "path_join d ''src'' = d @ [''src'']"
  "path_join d ''index.tsx'' = d @ [''index.tsx'']"
  by (simp_all add: path_join_def normalize_segment_def)

lemma not_prefix_extension: "\<not> prefix (d @ x # xs) d"
  by (auto dest: prefix_length_le)

lemma path_str_absolute: "hd (path_str p) = CHR ''/''"
  by (cases p) (simp_all add: path_str_def)

subsection \<open>Actions\<close>

lemma bind_io_Inr_iff:
  "bind_io m f w = (Inr y, w'') \<longleftrightarrow> (\<exists>x w'. m w = (Inr x, w') \<and> f x w' = (Inr y, w''))"
  by (auto simp: bind_io_def split: prod.splits sum.splits)

lemma return_io_iff: "return_io x w = (Inr y, w') \<longleftrightarrow> y = x \<and> w' = w"
  by (auto simp: return_io_def)

lemma catch_throw_Inr_iff:
  "catch_io m (\<lambda>e. throw_io (h e)) w = (Inr r, w') \<longleftrightarrow> m w = (Inr r, w')"
  by (auto simp: catch_io_def throw_io_def split: prod.splits sum.splits)

lemma world_files_eq: "(w\<lparr>files := X\<rparr> = w\<lparr>files := Y\<rparr>) = (X = Y)"
  by (cases w) simp

lemma find_SomeD: "find P xs = Some x \<Longrightarrow> P x \<and> x \<in> set xs"
  by (induction xs) (auto split: if_splits)

lemma ensureDir_Inr_iff:
  "ensureDir d (w\<lparr>files := F\<rparr>) = (Inr u, w') \<longleftrightarrow>
     (\<forall>q. prefix q d \<longrightarrow> \<not> is_file (F q)) \<and>
     w' = w\<lparr>files := (\<lambda>q. if prefix q d then Some Dir else F q)\<rparr>"
  by (auto simp: ensureDir_def return_io_def throw_io_def find_None_iff world_files_eq fun_eq_iff
           split: option.splits dest: find_SomeD)

lemma writeFile_Inr_iff:
  "writeFile f c (w\<lparr>files := F\<rparr>) = (Inr u, w') \<longleftrightarrow>
     F (butlast f) = Some Dir \<and> F f \<noteq> Some Dir \<and> w' = w\<lparr>files := F(f \<mapsto> File c)\<rparr>"
  by (auto simp: writeFile_def return_io_def throw_io_def world_files_eq fun_eq_iff
           split: option.splits node.splits)

text \<open>The sequence of calls of \<open>handleCreatePlugin\<close>, for any contents.\<close>

lemma create_chain:
  "bind_io (ensureDir d) (\<lambda>_.
      bind_io (writeFile (d @ [''package.json'']) c1) (\<lambda>_.
      bind_io (writeFile (d @ [''tsconfig.json'']) c2) (\<lambda>_.
      bind_io (writeFile (d @ [''tsconfig.node.json'']) c3) (\<lambda>_.
      bind_io (writeFile (d @ [''vite.config.ts'']) c4) (\<lambda>_.
       bind_io (ensureDir (d @ [''src''])) (\<lambda>_.
       bind_io (writeFile (d @ [''src'', ''index.tsx'']) c5) (\<lambda>_.
       return_io res))))))) (w\<lparr>files := F\<rparr>) = (Inr r, w')
   \<longleftrightarrow>
     (\<forall>q. prefix q (d @ [''src'']) \<longrightarrow> \<not> is_file (F q)) \<and>
      F (d @ [''package.json'']) \<noteq> Some Dir \<and>
      F (d @ [''tsconfig.json'']) \<noteq> Some Dir \<and>
      F (d @ [''tsconfig.node.json'']) \<noteq> Some Dir \<and>
      F (d @ [''vite.config.ts'']) \<noteq> Some Dir \<and>
      F (d @ [''src'', ''index.tsx'']) \<noteq> Some Dir \<and>
      r = res \<and>
      w' = w\<lparr>files := (\<lambda>q.
         if q = d @ [''src'', ''index.tsx''] then Some (File c5)
         else if q = d @ [''vite.config.ts''] then Some (File c4)
         else if q = d @ [''tsconfig.node.json''] then Some (File c3)
         else if q = d @ [''tsconfig.json''] then Some (File c2)
         else if q = d @ [''package.json''] then Some (File c1)
         else if prefix q (d @ [''src'']) then Some Dir else F q)\<rparr>"
  apply (simp add: bind_io_Inr_iff return_io_iff ensureDir_Inr_iff writeFile_Inr_iff
                   not_prefix_extension butlast_append)
  apply (auto simp: world_files_eq fun_eq_iff not_prefix_extension is_file_def)
  done

lemma create_chain_world:
  "bind_io (ensureDir d) (\<lambda>_.
      bind_io (writeFile (d @ [''package.json'']) c1) (\<lambda>_.
      bind_io (writeFile (d @ [''tsconfig.json'']) c2) (\<lambda>_.
      bind_io (writeFile (d @ [''tsconfig.node.json'']) c3) (\<lambda>_.
      bind_io (writeFile (d @ [''vite.config.ts'']) c4) (\<lambda>_.
       bind_io (ensureDir (d @ [''src''])) (\<lambda>_.
       bind_io (writeFile (d @ [''src'', ''index.tsx'']) c5) (\<lambda>_.
       return_io res))))))) w = (Inr r, w')
   \<longleftrightarrow>
     (\<forall>q. prefix q (d @ [''src'']) \<longrightarrow> \<not> is_file (files w q)) \<and>
      files w (d @ [''package.json'']) \<noteq> Some Dir \<and>
      files w (d @ [''tsconfig.json'']) \<noteq> Some Dir \<and>
      files w (d @ [''tsconfig.node.json'']) \<noteq> Some Dir \<and>
      files w (d @ [''vite.config.ts'']) \<noteq> Some Dir \<and>
      files w (d @ [''src'', ''index.tsx'']) \<noteq> Some Dir \<and>
      r = res \<and>
      w' = w\<lparr>files := (\<lambda>q.
         if q = d @ [''src'', ''index.tsx''] then Some (File c5)
         else if q = d @ [''vite.config.ts''] then Some (File c4)
         else if q = d @ [''tsconfig.node.json''] then Some (File c3)
         else if q = d @ [''tsconfig.json''] then Some (File c2)
         else if q = d @ [''package.json''] then Some (File c1)
         else if prefix q (d @ [''src'']) then Some Dir else files w q)\<rparr>"
  using create_chain [where w = w and F = "files w"] by simp

lemma create_Inr_iff:
  "handleCreatePlugin args w = (Inr r, w') \<longleftrightarrow>
     (\<forall>q. prefix q (path_resolve (cwd w) (outputPath args) @ [''src'']) \<longrightarrow> \<not> is_file (files w q)) \<and>
      files w (path_resolve (cwd w) (outputPath args) @ [''package.json'']) \<noteq> Some Dir \<and>
      files w (path_resolve (cwd w) (outputPath args) @ [''tsconfig.json'']) \<noteq> Some Dir \<and>
      files w (path_resolve (cwd w) (outputPath args) @ [''tsconfig.node.json'']) \<noteq> Some Dir \<and>
      files w (path_resolve (cwd w) (outputPath args) @ [''vite.config.ts'']) \<noteq> Some Dir \<and>
      files w (path_resolve (cwd w) (outputPath args) @ [''src'', ''index.tsx'']) \<noteq> Some Dir \<and>
      r = \<lparr>content = [\<lparr>type = ''text'',
             text = ''Successfully created Framer plugin project at ''
                    @ path_str (path_resolve (cwd w) (outputPath args))\<rparr>]\<rparr> \<and>
      w' = w\<lparr>files := created_tree args (path_resolve (cwd w) (outputPath args)) (files w)\<rparr>"
  by (simp add: handleCreatePlugin_def catch_throw_Inr_iff handleCreatePlugin_try_def Let_def
        writeJSON_def path_join_names create_chain_world created_tree_def)

subsection \<open>Generated texts\<close>

lemma sublist_unlines: "l \<in> set ls \<Longrightarrow> sublist (l @ [CHR 0x0A]) (unlines ls)"
proof -
  assume "l \<in> set ls"
  then obtain xs ys where "ls = xs @ l # ys"
    by (auto simp: in_set_conv_decomp)
  then have "unlines ls = unlines xs @ (l @ [CHR 0x0A]) @ unlines ys"
    by (simp add: unlines_def)
  then show ?thesis
    by (simp only: sublist_appendI)
qed

lemma suffix_unlines: "suffix ys ls \<Longrightarrow> suffix (unlines ys) (unlines ls)"
  by (auto simp: suffix_def unlines_def)

lemma replace_all_char: "replace_all c [r] s = map (\<lambda>x. if x = c then r else x) s"
  by (induction s) simp_all

lemma indexContent_no_wallet:
  "\<not> optional_includes (web3Features args) ''wallet-connect'' \<Longrightarrow>
   indexContent args = indexContent_plain args"
  by (simp add: indexContent_def)

lemma indexContent_with_wallet:
  "optional_includes (web3Features args) ''wallet-connect'' \<Longrightarrow>
   indexContent args = indexContent_wallet args"
  by (simp add: indexContent_def)

lemma resolve_tmp_widget:
  "path_resolve (cwd fresh_world) ''/tmp/widget'' = [''tmp'', ''widget'']"
  by (simp add: path_resolve_def normalize_segment_def)

lemma fresh_world_creatable:
  "\<forall>q. prefix q [''tmp'', ''widget'', ''src''] \<longrightarrow> \<not> is_file (files fresh_world q)"
  by (auto simp: fresh_world_def is_file_def)

subsection \<open>The files \<open>create_plugin\<close> writes\<close>

text \<open>
  C1. A request without \<open>wallet-connect\<close> (the feature list omitted or not containing it):
  when \<open>handleCreatePlugin\<close> succeeds, the five files \<open>package.json\<close>, \<open>tsconfig.json\<close>,
  \<open>tsconfig.node.json\<close>, \<open>vite.config.ts\<close> and \<open>src/index.tsx\<close> under the resolved output
  path hold the generated texts; every other path is a directory on the way to \<open>src\<close> or
  is as it was before, and nothing is started. For the name \<open>widget\<close> the source file exports
  the function \<open>widget\<close> and ends with the property controls of \<open>widget\<close> whose default text is
  \<open>Hello World\<close>.
\<close>

theorem create_plugin_writes_five_files:
  assumes no_wallet: "\<not> optional_includes (web3Features args) ''wallet-connect''"
      and success: "handleCreatePlugin args w = (Inr r, w')"
  shows "let dir = path_resolve (cwd w) (outputPath args);
             package_json = dir @ [''package.json''];
             tsconfig_json = dir @ [''tsconfig.json''];
             tsconfig_node_json = dir @ [''tsconfig.node.json''];
             vite_config_ts = dir @ [''vite.config.ts''];
             index_tsx = dir @ [''src'', ''index.tsx'']
         in distinct [package_json, tsconfig_json, tsconfig_node_json, vite_config_ts, index_tsx] \<and>
            files w' package_json =
              Some (File (stringify 0 (json_of_PackageJson (packageJson args)) @ [CHR 0x0A])) \<and>
            files w' tsconfig_json = Some (File (stringify 0 tsConfig @ [CHR 0x0A])) \<and>
            files w' tsconfig_node_json = Some (File (stringify 0 tsNodeConfig @ [CHR 0x0A])) \<and>
            files w' vite_config_ts = Some (File (viteConfig args)) \<and>
            files w' index_tsx = Some (File (indexContent_plain args)) \<and>
            (\<forall>q. q \<in> set [package_json, tsconfig_json, tsconfig_node_json, vite_config_ts, index_tsx]
                 \<or> prefix q (dir @ [''src'']) \<and> files w' q = Some Dir
                 \<or> files w' q = files w q) \<and>
            cwd w' = cwd w \<and> spawned w' = spawned w \<and>
            (CreatePluginArgs.name args = ''widget'' \<longrightarrow>
               sublist (''export default function widget() {'' @ [CHR 0x0A]) (indexContent_plain args) \<and>
               suffix (unlines
                  [''addPropertyControls(widget, {'',
                   ''  text: {'',
                   ''    type: ControlType.String,'',
                   ''    title: 'Text','',
                   ''    defaultValue: 'Hello World','',
                   ''  },'',
                   ''});'']) (indexContent_plain args))"
proof -
  define dir where "dir = path_resolve (cwd w) (outputPath args)"
  from success have w': "w' = w\<lparr>files := created_tree args dir (files w)\<rparr>"
    by (simp add: create_Inr_iff dir_def)
  have tree: "files w' = created_tree args dir (files w)" and rest: "cwd w' = cwd w" "spawned w' = spawned w"
    by (simp_all add: w')
  have paths: "distinct [dir @ [''package.json''], dir @ [''tsconfig.json''],
      dir @ [''tsconfig.node.json''], dir @ [''vite.config.ts''], dir @ [''src'', ''index.tsx'']]"
    by simp
  have written:
    "files w' (dir @ [''package.json'']) =
       Some (File (stringify 0 (json_of_PackageJson (packageJson args)) @ [CHR 0x0A]))"
    "files w' (dir @ [''tsconfig.json'']) = Some (File (stringify 0 tsConfig @ [CHR 0x0A]))"
    "files w' (dir @ [''tsconfig.node.json'']) = Some (File (stringify 0 tsNodeConfig @ [CHR 0x0A]))"
    "files w' (dir @ [''vite.config.ts'']) = Some (File (viteConfig args))"
    "files w' (dir @ [''src'', ''index.tsx'']) = Some (File (indexContent_plain args))"
    by (simp_all add: tree created_tree_def indexContent_no_wallet [OF no_wallet])
  have others: "\<forall>q. q \<in> set [dir @ [''package.json''], dir @ [''tsconfig.json''],
        dir @ [''tsconfig.node.json''], dir @ [''vite.config.ts''], dir @ [''src'', ''index.tsx'']]
      \<or> prefix q (dir @ [''src'']) \<and> files w' q = Some Dir
      \<or> files w' q = files w q"
    by (simp add: tree created_tree_def)
  have widget: "CreatePluginArgs.name args = ''widget'' \<longrightarrow>
      sublist (''export default function widget() {'' @ [CHR 0x0A]) (indexContent_plain args) \<and>
      suffix (unlines
         [''addPropertyControls(widget, {'',
          ''  text: {'',
          ''    type: ControlType.String,'',
          ''    title: 'Text','',
          ''    defaultValue: 'Hello World','',
          ''  },'',
          ''});'']) (indexContent_plain args)"
  proof
    assume n: "CreatePluginArgs.name args = ''widget''"
    have "sublist (''export default function widget() {'' @ [CHR 0x0A]) (indexContent_plain args)"
      unfolding indexContent_plain_def by (rule sublist_unlines) (simp add: n)
    moreover have "suffix (unlines
         [''addPropertyControls(widget, {'',
          ''  text: {'',
          ''    type: ControlType.String,'',
          ''    title: 'Text','',
          ''    defaultValue: 'Hello World','',
          ''  },'',
          ''});'']) (indexContent_plain args)"
      unfolding indexContent_plain_def by (rule suffix_unlines) (simp add: n suffix_Cons)
    ultimately show "sublist (''export default function widget() {'' @ [CHR 0x0A]) (indexContent_plain args) \<and>
      suffix (unlines
         [''addPropertyControls(widget, {'',
          ''  text: {'',
          ''    type: ControlType.String,'',
          ''    title: 'Text','',
          ''    defaultValue: 'Hello World','',
          ''  },'',
          ''});'']) (indexContent_plain args)" by blast
  qed
  from paths written others rest widget show ?thesis
    unfolding Let_def dir_def by blast
qed


theorem create_plugin_writes_five_files_witness:
  "\<not> optional_includes (web3Features widget_request) ''wallet-connect'' \<and>
   handleCreatePlugin widget_request fresh_world =
     (Inr \<lparr>content = [\<lparr>type = ''text'',
            text = ''Successfully created Framer plugin project at /tmp/widget''\<rparr>]\<rparr>,
      fresh_world\<lparr>files := created_tree widget_request [''tmp'', ''widget''] (files fresh_world)\<rparr>) \<and>
   files (fresh_world\<lparr>files := created_tree widget_request [''tmp'', ''widget''] (files fresh_world)\<rparr>)
      [''tmp'', ''widget'', ''src'', ''index.tsx'']
     = Some (File (indexContent_plain widget_request)) \<and>
   files (fresh_world\<lparr>files := created_tree widget_request [''tmp'', ''widget''] (files fresh_world)\<rparr>)
      [''tmp'', ''notes.txt'']
     = Some (File ''x'') \<and>
   sublist (''export default function widget() {'' @ [CHR 0x0A]) (indexContent_plain widget_request)"
proof -
  have no_wallet: "\<not> optional_includes (web3Features widget_request) ''wallet-connect''"
    by (simp add: widget_request_def optional_includes_def)
  have dir: "path_resolve (cwd fresh_world) (outputPath widget_request) = [''tmp'', ''widget'']"
    using resolve_tmp_widget by (simp add: widget_request_def)
  have success: "handleCreatePlugin widget_request fresh_world =
     (Inr \<lparr>content = [\<lparr>type = ''text'',
            text = ''Successfully created Framer plugin project at /tmp/widget''\<rparr>]\<rparr>,
      fresh_world\<lparr>files := created_tree widget_request [''tmp'', ''widget''] (files fresh_world)\<rparr>)"
    unfolding create_Inr_iff dir using fresh_world_creatable
    by (simp add: path_str_def) (simp add: fresh_world_def)
  have name: "CreatePluginArgs.name widget_request = ''widget''"
    by (simp add: widget_request_def)
  have kept: "files (fresh_world\<lparr>files := created_tree widget_request [''tmp'', ''widget''] (files fresh_world)\<rparr>)
      [''tmp'', ''notes.txt''] = Some (File ''x'')"
    by (simp add: created_tree_def fresh_world_def)
  note main = create_plugin_writes_five_files [OF no_wallet success, unfolded Let_def dir]
  from main have "files (fresh_world\<lparr>files := created_tree widget_request [''tmp'', ''widget''] (files fresh_world)\<rparr>)
      ([''tmp'', ''widget''] @ [''src'', ''index.tsx''])
     = Some (File (indexContent_plain widget_request))"
    by (elim conjE)
  then have index: "files (fresh_world\<lparr>files := created_tree widget_request [''tmp'', ''widget''] (files fresh_world)\<rparr>)
      [''tmp'', ''widget'', ''src'', ''index.tsx'']
     = Some (File (indexContent_plain widget_request))"
    by (simp only: append_Cons append_Nil)
  from main name
  have export: "sublist (''export default function widget() {'' @ [CHR 0x0A]) (indexContent_plain widget_request)"
    by (elim conjE) (erule impE, assumption, erule conjE)
  from no_wallet success index kept export show ?thesis
    by (intro conjI)
qed

lemma packageJson_dependencies:
  "dependencies (packageJson args) =
     [(''@framer/framer.motion'', ''^10.0.0''), (''react'', ''^18.2.0''), (''react-dom'', ''^18.2.0'')]
     @ (if optional_includes (web3Features args) ''wallet-connect''
        then [(''@web3-react/core'', ''^8.2.0''),
              (''@web3-react/injected-connector'', ''^6.0.7''),
              (''ethers'', ''^6.7.0'')]
        else [])"
  by (simp add: packageJson_def object_spread_def)

text \<open>
  C2. A request whose feature list contains \<open>wallet-connect\<close>, compared with any request
  without it: the dependencies of the package descriptor are those of the request without
  it followed by exactly three more entries (\<open>@web3-react/core\<close>,
  \<open>@web3-react/injected-connector\<close>, \<open>ethers\<close>), all keys distinct; on success this
  descriptor is what \<open>package.json\<close> holds, and \<open>src/index.tsx\<close> holds the wallet variant,
  which ends with the property controls whose default text is \<open>Connect Wallet\<close>, where the
  source of the request without the feature ends with the default text \<open>Hello World\<close>.
\<close>

theorem wallet_connect_adds_three_dependencies:
  assumes wallet: "optional_includes (web3Features args) ''wallet-connect''"
      and plain: "\<not> optional_includes (web3Features args') ''wallet-connect''"
      and success: "handleCreatePlugin args w = (Inr r, w')"
  shows "dependencies (packageJson args) =
           dependencies (packageJson args') @
             [(''@web3-react/core'', ''^8.2.0''),
              (''@web3-react/injected-connector'', ''^6.0.7''),
              (''ethers'', ''^6.7.0'')] \<and>
         distinct (map fst (dependencies (packageJson args))) \<and>
         length (dependencies (packageJson args)) = length (dependencies (packageJson args')) + 3 \<and>
         files w' (path_resolve (cwd w) (outputPath args) @ [''package.json'']) =
           Some (File (stringify 0 (json_of_PackageJson (packageJson args)) @ [CHR 0x0A])) \<and>
         files w' (path_resolve (cwd w) (outputPath args) @ [''src'', ''index.tsx'']) =
           Some (File (indexContent_wallet args)) \<and>
         suffix (unlines
            [''addPropertyControls('' @ replace_all (CHR ''-'') ''_'' (CreatePluginArgs.name args) @ '', {'',
             ''  text: {'',
             ''    type: ControlType.String,'',
             ''    title: 'Text','',
             ''    defaultValue: 'Connect Wallet','',
             ''  },'',
             ''});'']) (indexContent_wallet args) \<and>
         suffix (unlines
            [''addPropertyControls('' @ replace_all (CHR ''-'') ''_'' (CreatePluginArgs.name args') @ '', {'',
             ''  text: {'',
             ''    type: ControlType.String,'',
             ''    title: 'Text','',
             ''    defaultValue: 'Hello World','',
             ''  },'',
             ''});'']) (indexContent args')"
proof -
  have deps: "dependencies (packageJson args) =
           dependencies (packageJson args') @
             [(''@web3-react/core'', ''^8.2.0''),
              (''@web3-react/injected-connector'', ''^6.0.7''),
              (''ethers'', ''^6.7.0'')]"
    by (simp add: packageJson_dependencies wallet plain)
  have keys: "distinct (map fst (dependencies (packageJson args)))"
    by (simp add: packageJson_dependencies wallet)
  have count: "length (dependencies (packageJson args)) = length (dependencies (packageJson args')) + 3"
    by (simp add: deps)
  from success have tree: "files w' = created_tree args (path_resolve (cwd w) (outputPath args)) (files w)"
    by (simp add: create_Inr_iff)
  have descriptor: "files w' (path_resolve (cwd w) (outputPath args) @ [''package.json'']) =
           Some (File (stringify 0 (json_of_PackageJson (packageJson args)) @ [CHR 0x0A]))"
    by (simp add: tree created_tree_def)
  have source: "files w' (path_resolve (cwd w) (outputPath args) @ [''src'', ''index.tsx'']) =
           Some (File (indexContent_wallet args))"
    by (simp add: tree created_tree_def indexContent_with_wallet [OF wallet])
  have connect: "suffix (unlines
            [''addPropertyControls('' @ replace_all (CHR ''-'') ''_'' (CreatePluginArgs.name args) @ '', {'',
             ''  text: {'',
             ''    type: ControlType.String,'',
             ''    title: 'Text','',
             ''    defaultValue: 'Connect Wallet','',
             ''  },'',
             ''});'']) (indexContent_wallet args)"
    unfolding indexContent_wallet_def by (rule suffix_unlines) (simp add: suffix_Cons)
  have hello: "suffix (unlines
            [''addPropertyControls('' @ replace_all (CHR ''-'') ''_'' (CreatePluginArgs.name args') @ '', {'',
             ''  text: {'',
             ''    type: ControlType.String,'',
             ''    title: 'Text','',
             ''    defaultValue: 'Hello World','',
             ''  },'',
             ''});'']) (indexContent args')"
    unfolding indexContent_no_wallet [OF plain] indexContent_plain_def
    by (rule suffix_unlines) (simp add: suffix_Cons)
  from deps keys count descriptor source connect hello show ?thesis
    by (intro conjI)
qed


lemma fresh_world_create:
  assumes "outputPath a = ''/tmp/widget''"
  shows "handleCreatePlugin a fresh_world =
     (Inr \<lparr>content = [\<lparr>type = ''text'',
            text = ''Successfully created Framer plugin project at /tmp/widget''\<rparr>]\<rparr>,
      fresh_world\<lparr>files := created_tree a [''tmp'', ''widget''] (files fresh_world)\<rparr>)"
proof -
  have dir: "path_resolve (cwd fresh_world) (outputPath a) = [''tmp'', ''widget'']"
    using resolve_tmp_widget by (simp add: assms)
  show ?thesis
    unfolding create_Inr_iff dir using fresh_world_creatable
    by (simp add: path_str_def) (simp add: fresh_world_def)
qed

theorem wallet_connect_adds_three_dependencies_witness:
  "optional_includes (web3Features wallet_request) ''wallet-connect'' \<and>
   \<not> optional_includes (web3Features widget_request) ''wallet-connect'' \<and>
   handleCreatePlugin wallet_request fresh_world =
     (Inr \<lparr>content = [\<lparr>type = ''text'',
            text = ''Successfully created Framer plugin project at /tmp/widget''\<rparr>]\<rparr>,
      fresh_world\<lparr>files := created_tree wallet_request [''tmp'', ''widget''] (files fresh_world)\<rparr>) \<and>
   dependencies (packageJson wallet_request) =
     dependencies (packageJson widget_request) @
       [(''@web3-react/core'', ''^8.2.0''),
        (''@web3-react/injected-connector'', ''^6.0.7''),
        (''ethers'', ''^6.7.0'')] \<and>
   length (dependencies (packageJson wallet_request)) = length (dependencies (packageJson widget_request)) + 3"
proof -
  have wallet: "optional_includes (web3Features wallet_request) ''wallet-connect''"
    by (simp add: wallet_request_def optional_includes_def)
  have plain: "\<not> optional_includes (web3Features widget_request) ''wallet-connect''"
    by (simp add: widget_request_def optional_includes_def)
  have success: "handleCreatePlugin wallet_request fresh_world =
     (Inr \<lparr>content = [\<lparr>type = ''text'',
            text = ''Successfully created Framer plugin project at /tmp/widget''\<rparr>]\<rparr>,
      fresh_world\<lparr>files := created_tree wallet_request [''tmp'', ''widget''] (files fresh_world)\<rparr>)"
    by (rule fresh_world_create) (simp add: wallet_request_def widget_request_def)
  note main = wallet_connect_adds_three_dependencies [OF wallet plain success]
  from main have deps: "dependencies (packageJson wallet_request) =
     dependencies (packageJson widget_request) @
       [(''@web3-react/core'', ''^8.2.0''),
        (''@web3-react/injected-connector'', ''^6.0.7''),
        (''ethers'', ''^6.7.0'')]"
    by (elim conjE)
  from main have count: "length (dependencies (packageJson wallet_request)) =
      length (dependencies (packageJson widget_request)) + 3"
    by (elim conjE)
  from wallet plain success deps count show ?thesis
    by (intro conjI)
qed

subsection \<open>\<open>build_plugin\<close> on a missing path\<close>

lemma build_missing:
  "files w (path_resolve (cwd w) (pluginPath args)) = None \<Longrightarrow>
   handleBuildPlugin run args w =
     (Inl \<lparr>code = InternalError,
           message = ''Failed to build plugin: Plugin directory not found: ''
                     @ path_str (path_resolve (cwd w) (pluginPath args))\<rparr>, w)"
  by (simp add: handleBuildPlugin_def handleBuildPlugin_try_def catch_io_def bind_io_def
        pathExists_def return_io_def throw_io_def Let_def)

lemma build_existing:
  "files w (path_resolve (cwd w) (pluginPath args)) \<noteq> None \<Longrightarrow>
   handleBuildPlugin run args w =
     (case fst (run ''npm run build'' (path_resolve (cwd w) (pluginPath args)) (files w)) of
        Some m \<Rightarrow> Inl \<lparr>code = InternalError, message = ''Failed to build plugin: '' @ m\<rparr>
      | None \<Rightarrow> Inr \<lparr>content = [\<lparr>type = ''text'',
            text = ''Successfully built plugin at ''
                   @ path_str (path_resolve (cwd w) (pluginPath args))\<rparr>]\<rparr>,
      w\<lparr>files := snd (run ''npm run build'' (path_resolve (cwd w) (pluginPath args)) (files w)),
        spawned := spawned w @ [(''npm run build'', path_resolve (cwd w) (pluginPath args))]\<rparr>)"
  by (auto simp: handleBuildPlugin_def handleBuildPlugin_try_def catch_io_def bind_io_def
        pathExists_def return_io_def throw_io_def execSync_def Let_def split: option.splits)

text \<open>
  When nothing exists at the resolved plugin path, \<open>handleBuildPlugin\<close> fails with an
  internal error whose message is \<open>Failed to build plugin: Plugin directory not found:\<close>
  followed by the resolved absolute path, and it leaves the world as it was: no process is
  started.
\<close>

lemma build_plugin_missing_path:
  assumes "files w (path_resolve (cwd w) (pluginPath args)) = None"
  shows "handleBuildPlugin run args w =
     (Inl \<lparr>code = InternalError,
           message = ''Failed to build plugin: Plugin directory not found: ''
                     @ path_str (path_resolve (cwd w) (pluginPath args))\<rparr>, w) \<and>
     sublist (path_str (path_resolve (cwd w) (pluginPath args)))
       (''Failed to build plugin: Plugin directory not found: ''
          @ path_str (path_resolve (cwd w) (pluginPath args))) \<and>
     sublist ''not found''
       (''Failed to build plugin: Plugin directory not found: ''
          @ path_str (path_resolve (cwd w) (pluginPath args))) \<and>
     hd (path_str (path_resolve (cwd w) (pluginPath args))) = CHR ''/'' \<and>
     spawned (snd (handleBuildPlugin run args w)) = spawned w"
proof -
  have result: "handleBuildPlugin run args w =
     (Inl \<lparr>code = InternalError,
           message = ''Failed to build plugin: Plugin directory not found: ''
                     @ path_str (path_resolve (cwd w) (pluginPath args))\<rparr>, w)"
    using assms by (rule build_missing)
  have path: "sublist (path_str (path_resolve (cwd w) (pluginPath args)))
       (''Failed to build plugin: Plugin directory not found: ''
          @ path_str (path_resolve (cwd w) (pluginPath args)))"
    by (rule suffix_imp_sublist) (rule suffix_appendI, rule suffix_order.refl)
  have "sublist ''not found''
       (''Failed to build plugin: Plugin directory '' @ ''not found'' @
          '': '' @ path_str (path_resolve (cwd w) (pluginPath args)))"
    by (rule sublist_appendI)
  then have phrase: "sublist ''not found''
       (''Failed to build plugin: Plugin directory not found: ''
          @ path_str (path_resolve (cwd w) (pluginPath args)))"
    by simp
  have none: "spawned (snd (handleBuildPlugin run args w)) = spawned w"
    by (simp add: result)
  from result path phrase path_str_absolute none show ?thesis
    by (intro conjI)
qed

lemma build_plugin_missing_path_witness:
  "files fresh_world (path_resolve (cwd fresh_world) (pluginPath \<lparr>pluginPath = ''missing''\<rparr>)) = None \<and>
   handleBuildPlugin npm_ok \<lparr>pluginPath = ''missing''\<rparr> fresh_world =
     (Inl \<lparr>code = InternalError,
           message = ''Failed to build plugin: Plugin directory not found: /home/missing''\<rparr>,
      fresh_world)"
proof -
  have dir: "path_resolve (cwd fresh_world) (pluginPath \<lparr>pluginPath = ''missing''\<rparr>) = [''home'', ''missing'']"
    by (simp add: path_resolve_def normalize_segment_def fresh_world_def)
  have missing: "files fresh_world (path_resolve (cwd fresh_world) (pluginPath \<lparr>pluginPath = ''missing''\<rparr>)) = None"
    unfolding dir by (simp add: fresh_world_def)
  from build_plugin_missing_path [OF missing, of npm_ok]
  have "handleBuildPlugin npm_ok \<lparr>pluginPath = ''missing''\<rparr> fresh_world =
     (Inl \<lparr>code = InternalError,
           message = ''Failed to build plugin: Plugin directory not found: ''
                     @ path_str (path_resolve (cwd fresh_world) (pluginPath \<lparr>pluginPath = ''missing''\<rparr>))\<rparr>,
      fresh_world)"
    by (elim conjE)
  then have "handleBuildPlugin npm_ok \<lparr>pluginPath = ''missing''\<rparr> fresh_world =
     (Inl \<lparr>code = InternalError,
           message = ''Failed to build plugin: Plugin directory not found: /home/missing''\<rparr>,
      fresh_world)"
    unfolding dir by (simp add: path_str_def)
  with missing show ?thesis
    by (intro conjI)
qed

text \<open>
  C3. The handler is meant to verify that the plugin directory exists (the comment at line
  349, the message \<open>Plugin directory not found\<close>), and the claim says so. The check it makes
  is \<open>fs.pathExists\<close>, which is true for a regular file as well. At a plugin path that is a
  regular file the check passes, so the handler does not report \<open>Plugin directory not found\<close>
  there: it goes on to \<open>execSync\<close>, and with a build command that cannot start in a file the
  error it reports is that of \<open>execSync\<close>, which does not say \<open>not found\<close>.
\<close>

theorem build_plugin_on_regular_file:
  "files fresh_world (path_resolve (cwd fresh_world) (pluginPath \<lparr>pluginPath = ''/tmp/notes.txt''\<rparr>))
     = Some (File ''x'') \<and>
   pathExists (path_resolve (cwd fresh_world) (pluginPath \<lparr>pluginPath = ''/tmp/notes.txt''\<rparr>))
     fresh_world = (Inr True, fresh_world) \<and>
   handleBuildPlugin npm_enotdir \<lparr>pluginPath = ''/tmp/notes.txt''\<rparr> fresh_world =
     (Inl \<lparr>code = InternalError,
           message = ''Failed to build plugin: spawnSync /bin/sh ENOTDIR''\<rparr>,
      fresh_world\<lparr>spawned := [(''npm run build'', [''tmp'', ''notes.txt''])]\<rparr>) \<and>
   \<not> sublist ''not found'' ''Failed to build plugin: spawnSync /bin/sh ENOTDIR''"
proof -
  have dir: "path_resolve (cwd fresh_world) (pluginPath \<lparr>pluginPath = ''/tmp/notes.txt''\<rparr>) = [''tmp'', ''notes.txt'']"
    by (simp add: path_resolve_def normalize_segment_def fresh_world_def)
  have node: "files fresh_world (path_resolve (cwd fresh_world) (pluginPath \<lparr>pluginPath = ''/tmp/notes.txt''\<rparr>))
     = Some (File ''x'')"
    unfolding dir by (simp add: fresh_world_def)
  then have exists: "files fresh_world (path_resolve (cwd fresh_world) (pluginPath \<lparr>pluginPath = ''/tmp/notes.txt''\<rparr>)) \<noteq> None"
    by simp
  have guard: "pathExists (path_resolve (cwd fresh_world) (pluginPath \<lparr>pluginPath = ''/tmp/notes.txt''\<rparr>))
     fresh_world = (Inr True, fresh_world)"
    using exists by (simp add: pathExists_def return_io_def)
  have result: "handleBuildPlugin npm_enotdir \<lparr>pluginPath = ''/tmp/notes.txt''\<rparr> fresh_world =
     (Inl \<lparr>code = InternalError,
           message = ''Failed to build plugin: spawnSync /bin/sh ENOTDIR''\<rparr>,
      fresh_world\<lparr>spawned := [(''npm run build'', [''tmp'', ''notes.txt''])]\<rparr>)"
    unfolding build_existing [OF exists] dir by (simp add: npm_enotdir_def fresh_world_def)
  have phrase: "\<not> sublist ''not found'' ''Failed to build plugin: spawnSync /bin/sh ENOTDIR''"
    by code_simp
  from node guard result phrase show ?thesis
    by (intro conjI)
qed

subsection \<open>The dispatcher\<close>

text \<open>
  C4. A call whose tool name is neither \<open>create_plugin\<close> nor \<open>build_plugin\<close> fails with
  the error \<open>MethodNotFound\<close> whose message is \<open>Unknown tool:\<close> followed by that name. No
  handler runs and the world is left as it was: no file is written, no process started.
  This holds for any arguments and any build command.
\<close>

theorem unknown_tool_rejected:
  assumes "CallToolParams.name params \<noteq> ''create_plugin''"
      and "CallToolParams.name params \<noteq> ''build_plugin''"
  shows "callTool run asCreatePluginArgs asBuildPluginArgs params w =
           (Inl \<lparr>code = MethodNotFound,
                 message = ''Unknown tool: '' @ CallToolParams.name params\<rparr>, w) \<and>
         sublist (CallToolParams.name params) (''Unknown tool: '' @ CallToolParams.name params)"
proof -
  have "callTool run asCreatePluginArgs asBuildPluginArgs params w =
           (Inl \<lparr>code = MethodNotFound,
                 message = ''Unknown tool: '' @ CallToolParams.name params\<rparr>, w)"
    using assms by (simp add: callTool_def throw_io_def)
  moreover have "sublist (CallToolParams.name params) (''Unknown tool: '' @ CallToolParams.name params)"
    by (rule suffix_imp_sublist) (rule suffix_appendI, rule suffix_order.refl)
  ultimately show ?thesis
    by (intro conjI)
qed

theorem unknown_tool_rejected_witness:
  "CallToolParams.name \<lparr>CallToolParams.name = ''delete_plugin'', arguments = widget_request\<rparr>
     \<noteq> ''create_plugin'' \<and>
   CallToolParams.name \<lparr>CallToolParams.name = ''delete_plugin'', arguments = widget_request\<rparr>
     \<noteq> ''build_plugin'' \<and>
   callTool npm_ok (\<lambda>a. a) (\<lambda>a. \<lparr>pluginPath = outputPath a\<rparr>)
     \<lparr>CallToolParams.name = ''delete_plugin'', arguments = widget_request\<rparr> fresh_world =
       (Inl \<lparr>code = MethodNotFound, message = ''Unknown tool: delete_plugin''\<rparr>, fresh_world)"
proof -
  have not_create:
    "CallToolParams.name \<lparr>CallToolParams.name = ''delete_plugin'', arguments = widget_request\<rparr>
       \<noteq> ''create_plugin''"
    by simp
  have not_build:
    "CallToolParams.name \<lparr>CallToolParams.name = ''delete_plugin'', arguments = widget_request\<rparr>
       \<noteq> ''build_plugin''"
    by simp
  from unknown_tool_rejected [OF not_create not_build,
      of npm_ok "\<lambda>a. a" "\<lambda>a. \<lparr>pluginPath = outputPath a\<rparr>" fresh_world]
  have "callTool npm_ok (\<lambda>a. a) (\<lambda>a. \<lparr>pluginPath = outputPath a\<rparr>)
     \<lparr>CallToolParams.name = ''delete_plugin'', arguments = widget_request\<rparr> fresh_world =
       (Inl \<lparr>code = MethodNotFound, message = ''Unknown tool: delete_plugin''\<rparr>, fresh_world)"
    by simp
  with not_create not_build show ?thesis
    by (intro conjI)
qed

subsection \<open>The exported identifier\<close>

lemma export_line_plain:
  "sublist (''export default function '' @ replace_all (CHR ''-'') ''_'' (CreatePluginArgs.name args)
      @ ''() {'' @ [CHR 0x0A]) (indexContent_plain args)"
proof -
  have "sublist ((''export default function '' @ replace_all (CHR ''-'') ''_'' (CreatePluginArgs.name args)
      @ ''() {'') @ [CHR 0x0A]) (indexContent_plain args)"
    unfolding indexContent_plain_def by (rule sublist_unlines) simp
  then show ?thesis by simp
qed

lemma export_line_wallet:
  "sublist (''export default function '' @ replace_all (CHR ''-'') ''_'' (CreatePluginArgs.name args)
      @ ''() {'' @ [CHR 0x0A]) (indexContent_wallet args)"
proof -
  have "sublist ((''export default function '' @ replace_all (CHR ''-'') ''_'' (CreatePluginArgs.name args)
      @ ''() {'') @ [CHR 0x0A]) (indexContent_wallet args)"
    unfolding indexContent_wallet_def by (rule sublist_unlines) simp
  then show ?thesis by simp
qed

lemma controls_line_plain:
  "sublist (''addPropertyControls('' @ replace_all (CHR ''-'') ''_'' (CreatePluginArgs.name args)
      @ '', {'' @ [CHR 0x0A]) (indexContent_plain args)"
proof -
  have "sublist ((''addPropertyControls('' @ replace_all (CHR ''-'') ''_'' (CreatePluginArgs.name args)
      @ '', {'') @ [CHR 0x0A]) (indexContent_plain args)"
    unfolding indexContent_plain_def by (rule sublist_unlines) simp
  then show ?thesis by simp
qed

lemma controls_line_wallet:
  "sublist (''addPropertyControls('' @ replace_all (CHR ''-'') ''_'' (CreatePluginArgs.name args)
      @ '', {'' @ [CHR 0x0A]) (indexContent_wallet args)"
proof -
  have "sublist ((''addPropertyControls('' @ replace_all (CHR ''-'') ''_'' (CreatePluginArgs.name args)
      @ '', {'') @ [CHR 0x0A]) (indexContent_wallet args)"
    unfolding indexContent_wallet_def by (rule sublist_unlines) simp
  then show ?thesis by simp
qed

lemma export_line:
  "sublist (''export default function '' @ replace_all (CHR ''-'') ''_'' (CreatePluginArgs.name args)
      @ ''() {'' @ [CHR 0x0A]) (indexContent args)"
  using export_line_plain [of args] export_line_wallet [of args]
  by (simp add: indexContent_def)

text \<open>
  C5. In both variants of the generated source, and so for any feature list, the exported
  function and the argument of \<open>addPropertyControls\<close> are the request's name with every
  dash replaced by an underscore; \<open>my-cool-plugin\<close> gives \<open>my_cool_plugin\<close>.
\<close>

theorem exported_identifier_replaces_dashes:
  "replace_all (CHR ''-'') ''_'' (CreatePluginArgs.name args) =
     map (\<lambda>c. if c = CHR ''-'' then CHR ''_'' else c) (CreatePluginArgs.name args) \<and>
   sublist (''export default function ''
      @ map (\<lambda>c. if c = CHR ''-'' then CHR ''_'' else c) (CreatePluginArgs.name args)
      @ ''() {'' @ [CHR 0x0A]) (indexContent_plain args) \<and>
   sublist (''export default function ''
      @ map (\<lambda>c. if c = CHR ''-'' then CHR ''_'' else c) (CreatePluginArgs.name args)
      @ ''() {'' @ [CHR 0x0A]) (indexContent_wallet args) \<and>
   sublist (''export default function ''
      @ map (\<lambda>c. if c = CHR ''-'' then CHR ''_'' else c) (CreatePluginArgs.name args)
      @ ''() {'' @ [CHR 0x0A]) (indexContent args) \<and>
   sublist (''addPropertyControls(''
      @ map (\<lambda>c. if c = CHR ''-'' then CHR ''_'' else c) (CreatePluginArgs.name args)
      @ '', {'' @ [CHR 0x0A]) (indexContent args) \<and>
   sublist (''export default function my_cool_plugin() {'' @ [CHR 0x0A])
     (indexContent (args\<lparr>CreatePluginArgs.name := ''my-cool-plugin''\<rparr>))"
proof -
  let ?ident = "map (\<lambda>c. if c = CHR ''-'' then CHR ''_'' else c) (CreatePluginArgs.name args)"
  have ident: "replace_all (CHR ''-'') ''_'' (CreatePluginArgs.name args) = ?ident"
    by (rule replace_all_char)
  have plain: "sublist (''export default function '' @ ?ident @ ''() {'' @ [CHR 0x0A])
      (indexContent_plain args)"
    using export_line_plain [of args] by (simp only: ident)
  have wallet: "sublist (''export default function '' @ ?ident @ ''() {'' @ [CHR 0x0A])
      (indexContent_wallet args)"
    using export_line_wallet [of args] by (simp only: ident)
  have either: "sublist (''export default function '' @ ?ident @ ''() {'' @ [CHR 0x0A])
      (indexContent args)"
    using plain wallet by (simp add: indexContent_def)
  have controls: "sublist (''addPropertyControls('' @ ?ident @ '', {'' @ [CHR 0x0A])
      (indexContent args)"
    using controls_line_plain [of args] controls_line_wallet [of args]
    by (simp add: indexContent_def ident)
  have "sublist (''export default function ''
      @ replace_all (CHR ''-'') ''_'' (CreatePluginArgs.name (args\<lparr>CreatePluginArgs.name := ''my-cool-plugin''\<rparr>))
      @ ''() {'' @ [CHR 0x0A]) (indexContent (args\<lparr>CreatePluginArgs.name := ''my-cool-plugin''\<rparr>))"
    by (rule export_line)
  then have example: "sublist (''export default function my_cool_plugin() {'' @ [CHR 0x0A])
     (indexContent (args\<lparr>CreatePluginArgs.name := ''my-cool-plugin''\<rparr>))"
    by simp
  from ident plain wallet either controls example show ?thesis
    by (intro conjI)
qed

subsection \<open>Running \<open>create_plugin\<close> twice\<close>

lemma created_tree_idem:
  "created_tree args d (created_tree args d fs) = created_tree args d fs"
  by (simp add: created_tree_def fun_eq_iff)

text \<open>
  C6. When \<open>handleCreatePlugin\<close> has succeeded, running it again with the same arguments on
  the world it left succeeds too, with the same result, and leaves that world unchanged:
  the populated directory is no obstacle, and the five files keep their contents.
\<close>

theorem create_plugin_twice:
  assumes "handleCreatePlugin args w = (Inr r, w')"
  shows "handleCreatePlugin args w' = (Inr r, w') \<and>
         bind_io (handleCreatePlugin args) (\<lambda>first. handleCreatePlugin args) w = (Inr r, w')"
proof -
  define d where "d = path_resolve (cwd w) (outputPath args)"
  from assms have w': "w' = w\<lparr>files := created_tree args d (files w)\<rparr>"
    and r: "r = \<lparr>content = [\<lparr>type = ''text'',
             text = ''Successfully created Framer plugin project at '' @ path_str d\<rparr>]\<rparr>"
    by (simp_all add: create_Inr_iff d_def)
  have cwd: "cwd w' = cwd w" and tree: "files w' = created_tree args d (files w)"
    by (simp_all add: w')
  have again: "w'\<lparr>files := created_tree args d (files w')\<rparr> = w'"
    by (simp add: w' created_tree_idem)
  have second: "handleCreatePlugin args w' = (Inr r, w')"
    unfolding create_Inr_iff cwd d_def [symmetric] again
    by (simp add: tree created_tree_def r is_file_def not_prefix_extension)
  with assms have "bind_io (handleCreatePlugin args) (\<lambda>first. handleCreatePlugin args) w = (Inr r, w')"
    by (simp add: bind_io_def)
  with second show ?thesis
    by (intro conjI)
qed

theorem create_plugin_twice_witness:
  "handleCreatePlugin widget_request fresh_world =
     (Inr \<lparr>content = [\<lparr>type = ''text'',
            text = ''Successfully created Framer plugin project at /tmp/widget''\<rparr>]\<rparr>,
      fresh_world\<lparr>files := created_tree widget_request [''tmp'', ''widget''] (files fresh_world)\<rparr>) \<and>
   handleCreatePlugin widget_request
      (fresh_world\<lparr>files := created_tree widget_request [''tmp'', ''widget''] (files fresh_world)\<rparr>) =
     (Inr \<lparr>content = [\<lparr>type = ''text'',
            text = ''Successfully created Framer plugin project at /tmp/widget''\<rparr>]\<rparr>,
      fresh_world\<lparr>files := created_tree widget_request [''tmp'', ''widget''] (files fresh_world)\<rparr>)"
proof -
  have first: "handleCreatePlugin widget_request fresh_world =
     (Inr \<lparr>content = [\<lparr>type = ''text'',
            text = ''Successfully created Framer plugin project at /tmp/widget''\<rparr>]\<rparr>,
      fresh_world\<lparr>files := created_tree widget_request [''tmp'', ''widget''] (files fresh_world)\<rparr>)"
    by (rule fresh_world_create) (simp add: widget_request_def)
  from create_plugin_twice [OF first] have "handleCreatePlugin widget_request
      (fresh_world\<lparr>files := created_tree widget_request [''tmp'', ''widget''] (files fresh_world)\<rparr>) =
     (Inr \<lparr>content = [\<lparr>type = ''text'',
            text = ''Successfully created Framer plugin project at /tmp/widget''\<rparr>]\<rparr>,
      fresh_world\<lparr>files := created_tree widget_request [''tmp'', ''widget''] (files fresh_world)\<rparr>)"
    by (elim conjE)
  with first show ?thesis
    by (intro conjI)
qed

subsection \<open>What the output depends on\<close>

lemma handleCreatePlugin_cong:
  assumes "outputPath a2 = outputPath a1" and "packageJson a2 = packageJson a1"
      and "viteConfig a2 = viteConfig a1" and "indexContent a2 = indexContent a1"
  shows "handleCreatePlugin a2 = handleCreatePlugin a1"
  by (simp add: handleCreatePlugin_def handleCreatePlugin_try_def assms)

text \<open>
  C7. Two requests with the same name, description and output path whose feature lists
  agree on whether \<open>wallet-connect\<close> is present (they may differ in \<open>contract-interaction\<close>,
  \<open>nft-display\<close>, order and repetitions) are handled alike: \<open>handleCreatePlugin\<close> is the same
  function of the world for both, so results and all file contents are identical.
\<close>

theorem other_feature_flags_ignored:
  assumes "CreatePluginArgs.name a2 = CreatePluginArgs.name a1"
      and "CreatePluginArgs.description a2 = CreatePluginArgs.description a1"
      and "outputPath a2 = outputPath a1"
      and "optional_includes (web3Features a2) ''wallet-connect'' =
           optional_includes (web3Features a1) ''wallet-connect''"
  shows "handleCreatePlugin a2 = handleCreatePlugin a1 \<and>
         packageJson a2 = packageJson a1 \<and>
         viteConfig a2 = viteConfig a1 \<and>
         indexContent a2 = indexContent a1"
proof -
  have package: "packageJson a2 = packageJson a1"
    by (simp add: packageJson_def assms)
  have vite: "viteConfig a2 = viteConfig a1"
    by (simp add: viteConfig_def assms)
  have index: "indexContent a2 = indexContent a1"
    by (simp add: indexContent_def indexContent_plain_def indexContent_wallet_def assms)
  have "handleCreatePlugin a2 = handleCreatePlugin a1"
    using assms(3) package vite index by (rule handleCreatePlugin_cong)
  with package vite index show ?thesis
    by (intro conjI)
qed

theorem other_feature_flags_ignored_witness:
  "CreatePluginArgs.name (widget_request\<lparr>web3Features := Some [''contract-interaction'', ''wallet-connect'']\<rparr>)
     = CreatePluginArgs.name (widget_request\<lparr>web3Features := Some [''wallet-connect'', ''nft-display'']\<rparr>) \<and>
   CreatePluginArgs.description (widget_request\<lparr>web3Features := Some [''contract-interaction'', ''wallet-connect'']\<rparr>)
     = CreatePluginArgs.description (widget_request\<lparr>web3Features := Some [''wallet-connect'', ''nft-display'']\<rparr>) \<and>
   outputPath (widget_request\<lparr>web3Features := Some [''contract-interaction'', ''wallet-connect'']\<rparr>)
     = outputPath (widget_request\<lparr>web3Features := Some [''wallet-connect'', ''nft-display'']\<rparr>) \<and>
   optional_includes (web3Features (widget_request\<lparr>web3Features := Some [''contract-interaction'', ''wallet-connect'']\<rparr>)) ''wallet-connect''
     = optional_includes (web3Features (widget_request\<lparr>web3Features := Some [''wallet-connect'', ''nft-display'']\<rparr>)) ''wallet-connect'' \<and>
   handleCreatePlugin (widget_request\<lparr>web3Features := Some [''contract-interaction'', ''wallet-connect'']\<rparr>) fresh_world
     = handleCreatePlugin (widget_request\<lparr>web3Features := Some [''wallet-connect'', ''nft-display'']\<rparr>) fresh_world \<and>
   indexContent (widget_request\<lparr>web3Features := Some [''contract-interaction'', ''wallet-connect'']\<rparr>)
     = indexContent (widget_request\<lparr>web3Features := Some [''wallet-connect'', ''nft-display'']\<rparr>)"
proof -
  let ?a2 = "widget_request\<lparr>web3Features := Some [''contract-interaction'', ''wallet-connect'']\<rparr>"
  let ?a1 = "widget_request\<lparr>web3Features := Some [''wallet-connect'', ''nft-display'']\<rparr>"
  have n: "CreatePluginArgs.name ?a2 = CreatePluginArgs.name ?a1"
    and d: "CreatePluginArgs.description ?a2 = CreatePluginArgs.description ?a1"
    and p: "outputPath ?a2 = outputPath ?a1"
    by simp_all
  have f: "optional_includes (web3Features ?a2) ''wallet-connect'' =
           optional_includes (web3Features ?a1) ''wallet-connect''"
    by (simp add: optional_includes_def)
  note main = other_feature_flags_ignored [OF n d p f]
  from main have run: "handleCreatePlugin ?a2 fresh_world = handleCreatePlugin ?a1 fresh_world"
    by simp
  from main have index: "indexContent ?a2 = indexContent ?a1"
    by (elim conjE)
  from n d p f run index show ?thesis
    by (intro conjI)
qed

subsection \<open>The tool list\<close>

text \<open>
  C8. The list handler returns one fixed result in every world and leaves the world as it
  is; two calls in a row return the same result twice. The result lists exactly two tools,
  \<open>create_plugin\<close> then \<open>build_plugin\<close>, each with its name, description and parameter
  schema.
\<close>

theorem list_tools_fixed:
  "\<exists>r. (\<forall>w. listTools w = (Inr r, w)) \<and>
       (\<forall>w. bind_io listTools (\<lambda>first. bind_io listTools (\<lambda>second. return_io (first, second))) w
              = (Inr (r, r), w)) \<and>
       length (tools r) = 2 \<and>
       map Tool.name (tools r) = [''create_plugin'', ''build_plugin''] \<and>
       map Tool.description (tools r) =
         [''Create a new Framer plugin project with web3 capabilities'',
          ''Build a Framer plugin project''] \<and>
       map (\<lambda>t. map_of (case inputSchema t of JObject kvs \<Rightarrow> kvs | _ \<Rightarrow> []) ''required'') (tools r) =
         [Some (JArray [JString ''name'', JString ''description'', JString ''outputPath'']),
          Some (JArray [JString ''pluginPath''])]"
  by (simp add: listTools_def return_io_def bind_io_def)

subsection \<open>The confirmation messages\<close>

lemma build_Inr:
  assumes "handleBuildPlugin run args w = (Inr r, w')"
  shows "r = \<lparr>content = [\<lparr>type = ''text'',
            text = ''Successfully built plugin at ''
                   @ path_str (path_resolve (cwd w) (pluginPath args))\<rparr>]\<rparr>"
proof (cases "files w (path_resolve (cwd w) (pluginPath args)) = None")
  case True
  with assms show ?thesis
    by (simp add: build_missing)
next
  case False
  with assms show ?thesis
    by (auto simp: build_existing split: option.splits)
qed

text \<open>
  C9. A successful \<open>handleCreatePlugin\<close> returns exactly one text block, whose text ends
  with the resolved output path; a successful \<open>handleBuildPlugin\<close> returns exactly one text
  block, whose text ends with the resolved plugin path. A resolved path is absolute: its
  string starts with a slash.
\<close>

theorem success_message_names_resolved_path:
  "(handleCreatePlugin create_args w = (Inr r, w') \<longrightarrow>
      content r = [\<lparr>type = ''text'',
         text = ''Successfully created Framer plugin project at ''
                @ path_str (path_resolve (cwd w) (outputPath create_args))\<rparr>] \<and>
      sublist (path_str (path_resolve (cwd w) (outputPath create_args))) (text (hd (content r)))) \<and>
   (handleBuildPlugin run build_args w = (Inr r, w') \<longrightarrow>
      content r = [\<lparr>type = ''text'',
         text = ''Successfully built plugin at ''
                @ path_str (path_resolve (cwd w) (pluginPath build_args))\<rparr>] \<and>
      sublist (path_str (path_resolve (cwd w) (pluginPath build_args))) (text (hd (content r)))) \<and>
   hd (path_str (path_resolve (cwd w) p)) = CHR ''/''"
proof (intro conjI impI)
  assume "handleCreatePlugin create_args w = (Inr r, w')"
  then have r: "r = \<lparr>content = [\<lparr>type = ''text'',
         text = ''Successfully created Framer plugin project at ''
                @ path_str (path_resolve (cwd w) (outputPath create_args))\<rparr>]\<rparr>"
    by (simp add: create_Inr_iff)
  show "content r = [\<lparr>type = ''text'',
         text = ''Successfully created Framer plugin project at ''
                @ path_str (path_resolve (cwd w) (outputPath create_args))\<rparr>]"
    by (simp add: r)
  have "sublist (path_str (path_resolve (cwd w) (outputPath create_args)))
      (''Successfully created Framer plugin project at ''
        @ path_str (path_resolve (cwd w) (outputPath create_args)))"
    by (rule suffix_imp_sublist) (rule suffix_appendI, rule suffix_order.refl)
  then show "sublist (path_str (path_resolve (cwd w) (outputPath create_args))) (text (hd (content r)))"
    by (simp add: r)
next
  assume "handleBuildPlugin run build_args w = (Inr r, w')"
  then have r: "r = \<lparr>content = [\<lparr>type = ''text'',
            text = ''Successfully built plugin at ''
                   @ path_str (path_resolve (cwd w) (pluginPath build_args))\<rparr>]\<rparr>"
    by (rule build_Inr)
  show "content r = [\<lparr>type = ''text'',
         text = ''Successfully built plugin at ''
                @ path_str (path_resolve (cwd w) (pluginPath build_args))\<rparr>]"
    by (simp add: r)
  have "sublist (path_str (path_resolve (cwd w) (pluginPath build_args)))
      (''Successfully built plugin at '' @ path_str (path_resolve (cwd w) (pluginPath build_args)))"
    by (rule suffix_imp_sublist) (rule suffix_appendI, rule suffix_order.refl)
  then show "sublist (path_str (path_resolve (cwd w) (pluginPath build_args))) (text (hd (content r)))"
    by (simp add: r)
next
  show "hd (path_str (path_resolve (cwd w) p)) = CHR ''/''"
    by (rule path_str_absolute)
qed


theorem success_message_names_resolved_path_witness:
  "handleCreatePlugin widget_request fresh_world =
     (Inr \<lparr>content = [\<lparr>type = ''text'',
            text = ''Successfully created Framer plugin project at /tmp/widget''\<rparr>]\<rparr>,
      fresh_world\<lparr>files := created_tree widget_request [''tmp'', ''widget''] (files fresh_world)\<rparr>) \<and>
   sublist (path_str (path_resolve (cwd fresh_world) (outputPath widget_request)))
     ''Successfully created Framer plugin project at /tmp/widget'' \<and>
   path_str (path_resolve (cwd fresh_world) (outputPath widget_request)) = ''/tmp/widget'' \<and>
   handleBuildPlugin npm_ok \<lparr>pluginPath = ''../tmp''\<rparr> fresh_world =
     (Inr \<lparr>content = [\<lparr>type = ''text'', text = ''Successfully built plugin at /tmp''\<rparr>]\<rparr>,
      fresh_world\<lparr>spawned := [(''npm run build'', [''tmp''])]\<rparr>) \<and>
   sublist (path_str (path_resolve (cwd fresh_world) (pluginPath \<lparr>pluginPath = ''../tmp''\<rparr>)))
     ''Successfully built plugin at /tmp'' \<and>
   path_str (path_resolve (cwd fresh_world) (pluginPath \<lparr>pluginPath = ''../tmp''\<rparr>)) = ''/tmp''"
proof -
  have created: "handleCreatePlugin widget_request fresh_world =
     (Inr \<lparr>content = [\<lparr>type = ''text'',
            text = ''Successfully created Framer plugin project at /tmp/widget''\<rparr>]\<rparr>,
      fresh_world\<lparr>files := created_tree widget_request [''tmp'', ''widget''] (files fresh_world)\<rparr>)"
    by (rule fresh_world_create) (simp add: widget_request_def)
  have dir: "path_resolve (cwd fresh_world) (pluginPath \<lparr>pluginPath = ''../tmp''\<rparr>) = [''tmp'']"
    by (simp add: path_resolve_def normalize_segment_def fresh_world_def)
  have exists: "files fresh_world (path_resolve (cwd fresh_world) (pluginPath \<lparr>pluginPath = ''../tmp''\<rparr>)) \<noteq> None"
    unfolding dir by (simp add: fresh_world_def)
  have built: "handleBuildPlugin npm_ok \<lparr>pluginPath = ''../tmp''\<rparr> fresh_world =
     (Inr \<lparr>content = [\<lparr>type = ''text'', text = ''Successfully built plugin at /tmp''\<rparr>]\<rparr>,
      fresh_world\<lparr>spawned := [(''npm run build'', [''tmp''])]\<rparr>)"
    unfolding build_existing [OF exists] dir
    by (simp add: npm_ok_def fresh_world_def path_str_def)
  from success_message_names_resolved_path
    [where create_args = widget_request and w = fresh_world
       and r = "\<lparr>content = [\<lparr>type = ''text'',
            text = ''Successfully created Framer plugin project at /tmp/widget''\<rparr>]\<rparr>"
       and w' = "fresh_world\<lparr>files := created_tree widget_request [''tmp'', ''widget''] (files fresh_world)\<rparr>"]
    created
  have "sublist (path_str (path_resolve (cwd fresh_world) (outputPath widget_request)))
     (text (hd (content \<lparr>content = [\<lparr>type = ''text'',
            text = ''Successfully created Framer plugin project at /tmp/widget''\<rparr>]\<rparr>)))"
    by blast
  then have in_created: "sublist (path_str (path_resolve (cwd fresh_world) (outputPath widget_request)))
     ''Successfully created Framer plugin project at /tmp/widget''"
    by simp
  from success_message_names_resolved_path
    [where run = npm_ok and build_args = "\<lparr>pluginPath = ''../tmp''\<rparr>" and w = fresh_world
       and r = "\<lparr>content = [\<lparr>type = ''text'', text = ''Successfully built plugin at /tmp''\<rparr>]\<rparr>"
       and w' = "fresh_world\<lparr>spawned := [(''npm run build'', [''tmp''])]\<rparr>"]
    built
  have "sublist (path_str (path_resolve (cwd fresh_world) (pluginPath \<lparr>pluginPath = ''../tmp''\<rparr>)))
     (text (hd (content \<lparr>content = [\<lparr>type = ''text'', text = ''Successfully built plugin at /tmp''\<rparr>]\<rparr>)))"
    by blast
  then have in_built: "sublist (path_str (path_resolve (cwd fresh_world) (pluginPath \<lparr>pluginPath = ''../tmp''\<rparr>)))
     ''Successfully built plugin at /tmp''"
    by simp
  have created_path: "path_str (path_resolve (cwd fresh_world) (outputPath widget_request)) = ''/tmp/widget''"
    using resolve_tmp_widget by (simp add: widget_request_def path_str_def)
  have built_path: "path_str (path_resolve (cwd fresh_world) (pluginPath \<lparr>pluginPath = ''../tmp''\<rparr>)) = ''/tmp''"
    unfolding dir by (simp add: path_str_def)
  from created in_created created_path built in_built built_path show ?thesis
    by (intro conjI)
qed

subsection \<open>Where the description goes\<close>

text \<open>
  C10. Changing only the description of a request that succeeds gives a request that
  succeeds with the same result; the two file trees agree everywhere but at \<open>package.json\<close>,
  whose two descriptors differ only in the field \<open>description\<close>. The bundler configuration
  and the source file do not depend on the description (the compiler configurations are
  constants).
\<close>

theorem description_only_in_package_json:
  assumes "handleCreatePlugin args w = (Inr r, w1)"
  shows "let args' = args\<lparr>CreatePluginArgs.description := d\<rparr>;
             package_json = path_resolve (cwd w) (outputPath args) @ [''package.json''];
             w2 = snd (handleCreatePlugin args' w)
         in handleCreatePlugin args' w = (Inr r, w2) \<and>
            (files w2)(package_json := None) = (files w1)(package_json := None) \<and>
            cwd w2 = cwd w1 \<and> spawned w2 = spawned w1 \<and>
            files w1 package_json =
              Some (File (stringify 0 (json_of_PackageJson (packageJson args)) @ [CHR 0x0A])) \<and>
            files w2 package_json =
              Some (File (stringify 0 (json_of_PackageJson (packageJson args')) @ [CHR 0x0A])) \<and>
            packageJson args' = (packageJson args)\<lparr>PackageJson.description := d\<rparr> \<and>
            viteConfig args' = viteConfig args \<and>
            indexContent args' = indexContent args"
proof -
  define args' where "args' = args\<lparr>CreatePluginArgs.description := d\<rparr>"
  define dir where "dir = path_resolve (cwd w) (outputPath args)"
  define w2 where "w2 = w\<lparr>files := created_tree args' dir (files w)\<rparr>"
  have package: "packageJson args' = (packageJson args)\<lparr>PackageJson.description := d\<rparr>"
    by (simp add: packageJson_def args'_def Let_def)
  have vite: "viteConfig args' = viteConfig args"
    by (simp add: viteConfig_def args'_def)
  have index: "indexContent args' = indexContent args"
    by (simp add: indexContent_def indexContent_plain_def indexContent_wallet_def args'_def)
  have path: "outputPath args' = outputPath args"
    by (simp add: args'_def)
  from assms have w1: "w1 = w\<lparr>files := created_tree args dir (files w)\<rparr>"
    by (simp add: create_Inr_iff dir_def)
  from assms have second: "handleCreatePlugin args' w = (Inr r, w2)"
    by (simp add: create_Inr_iff path dir_def w2_def)
  then have snd: "snd (handleCreatePlugin args' w) = w2"
    by simp
  have others: "(files w2)(dir @ [''package.json''] := None) = (files w1)(dir @ [''package.json''] := None)"
    by (simp add: w1 w2_def created_tree_def fun_eq_iff vite index)
  have rest: "cwd w2 = cwd w1" "spawned w2 = spawned w1"
    by (simp_all add: w1 w2_def)
  have first_descriptor: "files w1 (dir @ [''package.json'']) =
      Some (File (stringify 0 (json_of_PackageJson (packageJson args)) @ [CHR 0x0A]))"
    by (simp add: w1 created_tree_def)
  have second_descriptor: "files w2 (dir @ [''package.json'']) =
      Some (File (stringify 0 (json_of_PackageJson (packageJson args')) @ [CHR 0x0A]))"
    by (simp add: w2_def created_tree_def)
  from second others rest first_descriptor second_descriptor package vite index
  show ?thesis
    unfolding Let_def args'_def [symmetric] dir_def [symmetric] snd
    by (intro conjI)
qed

theorem description_only_in_package_json_witness:
  "handleCreatePlugin widget_request fresh_world =
     (Inr \<lparr>content = [\<lparr>type = ''text'',
            text = ''Successfully created Framer plugin project at /tmp/widget''\<rparr>]\<rparr>,
      fresh_world\<lparr>files := created_tree widget_request [''tmp'', ''widget''] (files fresh_world)\<rparr>) \<and>
   handleCreatePlugin (widget_request\<lparr>CreatePluginArgs.description := ''other''\<rparr>) fresh_world =
     (Inr \<lparr>content = [\<lparr>type = ''text'',
            text = ''Successfully created Framer plugin project at /tmp/widget''\<rparr>]\<rparr>,
      snd (handleCreatePlugin (widget_request\<lparr>CreatePluginArgs.description := ''other''\<rparr>) fresh_world)) \<and>
   packageJson (widget_request\<lparr>CreatePluginArgs.description := ''other''\<rparr>) =
     (packageJson widget_request)\<lparr>PackageJson.description := ''other''\<rparr> \<and>
   indexContent (widget_request\<lparr>CreatePluginArgs.description := ''other''\<rparr>) = indexContent widget_request"
proof -
  have first: "handleCreatePlugin widget_request fresh_world =
     (Inr \<lparr>content = [\<lparr>type = ''text'',
            text = ''Successfully created Framer plugin project at /tmp/widget''\<rparr>]\<rparr>,
      fresh_world\<lparr>files := created_tree widget_request [''tmp'', ''widget''] (files fresh_world)\<rparr>)"
    by (rule fresh_world_create) (simp add: widget_request_def)
  note main = description_only_in_package_json [OF first, of "''other''", unfolded Let_def]
  from main have second: "handleCreatePlugin (widget_request\<lparr>CreatePluginArgs.description := ''other''\<rparr>) fresh_world =
     (Inr \<lparr>content = [\<lparr>type = ''text'',
            text = ''Successfully created Framer plugin project at /tmp/widget''\<rparr>]\<rparr>,
      snd (handleCreatePlugin (widget_request\<lparr>CreatePluginArgs.description := ''other''\<rparr>) fresh_world))"
    by (elim conjE)
  from main have package: "packageJson (widget_request\<lparr>CreatePluginArgs.description := ''other''\<rparr>) =
     (packageJson widget_request)\<lparr>PackageJson.description := ''other''\<rparr>"
    by (elim conjE)
  from main have index: "indexContent (widget_request\<lparr>CreatePluginArgs.description := ''other''\<rparr>) = indexContent widget_request"
    by (elim conjE)
  from first second package index show ?thesis
    by (intro conjI)
qed

end
